theory Spec2Isabelle
  imports Complex_Main
begin

section \<open>Python values, exceptions and effects\<close>

text \<open>
  The exceptions that the two modules can raise or see. \<open>OtherError\<close> stands for any
  other exception class raised by an external collaborator (the Trodes file reader, the
  raw extractor, the container builder, the file system).
\<close>

datatype error =
    FileNotFoundError
  | TypeError
  | KeyError
  | IndexError
  | UnboundLocalError
  | PermissionError
  | OtherError string

text \<open>
  The Python values that flow through the video-file extractor: strings (paths and file
  names), numbers, numpy arrays of integers (the raw columns of the timestamp files) and
  of floats (converted timestamps, \<open>np.array([])\<close>), and dictionaries with string keys
  (a stream's metadata, the reader's result). Floats are modelled by real numbers: the
  rounding of 64-bit floating point is not part of the model.
\<close>

datatype pyval =
    PNone
  | PInt int
  | PFloat real
  | PStr string
  | PIntArr "int list"
  | PFloatArr "real list"
  | PDict "(string \<times> pyval) list"

type_synonym pydict = "(string \<times> pyval) list"

text \<open>
  A program runs on a world \<open>'w\<close> (whatever the external collaborators read and
  write), raises or returns, leaves a new world, and emits the calls it made to the
  outside as a list of events.
\<close>

type_synonym ('w, 'e, 'a) prog = "'w \<Rightarrow> (error + 'a) \<times> 'w \<times> 'e list"

definition returnp :: "'a \<Rightarrow> ('w, 'e, 'a) prog" where
  "returnp x = (\<lambda>w. (Inr x, w, []))"

definition raisep :: "error \<Rightarrow> ('w, 'e, 'a) prog" where
  "raisep e = (\<lambda>w. (Inl e, w, []))"

definition liftp :: "error + 'a \<Rightarrow> ('w, 'e, 'a) prog" where
  "liftp r = (\<lambda>w. (r, w, []))"

definition emit :: "'e \<Rightarrow> ('w, 'e, unit) prog" where
  "emit ev = (\<lambda>w. (Inr (), w, [ev]))"

definition bindp :: "('w, 'e, 'a) prog \<Rightarrow> ('a \<Rightarrow> ('w, 'e, 'b) prog) \<Rightarrow> ('w, 'e, 'b) prog" where
  "bindp m f = (\<lambda>w.
     case m w of
       (Inl e, w1, t1) \<Rightarrow> (Inl e, w1, t1)
     | (Inr a, w1, t1) \<Rightarrow> (case f a w1 of (r, w2, t2) \<Rightarrow> (r, w2, t1 @ t2)))"

text \<open>
  \<open>try: m except E: h\<close>, where \<open>catches\<close> says which exceptions the clause names.
  What the body did before it raised stays done.
\<close>

definition try_except ::
  "('w, 'e, 'a) prog \<Rightarrow> (error \<Rightarrow> bool) \<Rightarrow> ('w, 'e, 'a) prog \<Rightarrow> ('w, 'e, 'a) prog" where
  "try_except m catches h = (\<lambda>w.
     case m w of
       (Inl e, w1, t1) \<Rightarrow>
         (if catches e then (case h w1 of (r, w2, t2) \<Rightarrow> (r, w2, t1 @ t2))
          else (Inl e, w1, t1))
     | (Inr a, w1, t1) \<Rightarrow> (Inr a, w1, t1))"

subsection \<open>The Python operations the extractor applies\<close>

text \<open>\<open>d[k]\<close> on a dictionary: KeyError when the key is missing.\<close>

definition py_dict_get :: "pydict \<Rightarrow> string \<Rightarrow> error + pyval" where
  "py_dict_get d k = (case map_of d k of None \<Rightarrow> Inl KeyError | Some v \<Rightarrow> Inr v)"

text \<open>
  \<open>x[k]\<close> with a string \<open>k\<close>. A string takes integer and slice indices only
  (TypeError: string indices must be integers); numbers and None are not subscriptable
  (TypeError); a plain numpy array refuses a string index with IndexError.
\<close>

fun py_getitem_str :: "pyval \<Rightarrow> string \<Rightarrow> error + pyval" where
  "py_getitem_str (PDict d) k = py_dict_get d k"
| "py_getitem_str (PStr s) k = Inl TypeError"
| "py_getitem_str (PIntArr xs) k = Inl IndexError"
| "py_getitem_str (PFloatArr xs) k = Inl IndexError"
| "py_getitem_str PNone k = Inl TypeError"
| "py_getitem_str (PInt i) k = Inl TypeError"
| "py_getitem_str (PFloat x) k = Inl TypeError"

text \<open>
  \<open>x[:-4]\<close>: all but the last four items of a sequence, the empty sequence when it has
  fewer than four. A dictionary refuses the slice as a key (TypeError: unhashable type,
  in the Python versions the repository runs on).
\<close>

fun py_slice_to_minus4 :: "pyval \<Rightarrow> error + pyval" where
  "py_slice_to_minus4 (PStr s) = Inr (PStr (take (length s - 4) s))"
| "py_slice_to_minus4 (PIntArr xs) = Inr (PIntArr (take (length xs - 4) xs))"
| "py_slice_to_minus4 (PFloatArr xs) = Inr (PFloatArr (take (length xs - 4) xs))"
| "py_slice_to_minus4 (PDict d) = Inl TypeError"
| "py_slice_to_minus4 PNone = Inl TypeError"
| "py_slice_to_minus4 (PInt i) = Inl TypeError"
| "py_slice_to_minus4 (PFloat x) = Inl TypeError"

text \<open>\<open>x + "literal"\<close>: string concatenation; any other left operand is a TypeError.\<close>

fun py_add_str :: "pyval \<Rightarrow> string \<Rightarrow> error + pyval" where
  "py_add_str (PStr s) t = Inr (PStr (s @ t))"
| "py_add_str v t = Inl TypeError"

text \<open>
  \<open>os.path.join(a, b)\<close> on POSIX, for a string \<open>a\<close>: an absolute \<open>b\<close> replaces
  \<open>a\<close>; otherwise one separator is put between them unless \<open>a\<close> is empty or ends
  with one. The result is a string. A component that is not a string is a TypeError.
\<close>

fun os_path_join :: "string \<Rightarrow> pyval \<Rightarrow> error + pyval" where
  "os_path_join a (PStr b) =
     (if b \<noteq> [] \<and> hd b = CHR ''/'' then Inr (PStr b)
      else if a = [] \<or> last a = CHR ''/'' then Inr (PStr (a @ b))
      else Inr (PStr (a @ ''/'' @ b)))"
| "os_path_join a v = Inl TypeError"

definition NANOSECONDS_PER_SECOND :: real where
  "NANOSECONDS_PER_SECOND = 10 ^ 9"

text \<open>\<open>x / d\<close> for a float \<open>d\<close> that is not zero: elementwise on arrays.\<close>

fun py_truediv :: "pyval \<Rightarrow> real \<Rightarrow> error + pyval" where
  "py_truediv (PInt i) d = Inr (PFloat (real_of_int i / d))"
| "py_truediv (PFloat x) d = Inr (PFloat (x / d))"
| "py_truediv (PIntArr xs) d = Inr (PFloatArr (map (\<lambda>i. real_of_int i / d) xs))"
| "py_truediv (PFloatArr xs) d = Inr (PFloatArr (map (\<lambda>x. x / d) xs))"
| "py_truediv (PStr s) d = Inl TypeError"
| "py_truediv (PDict m) d = Inl TypeError"
| "py_truediv PNone d = Inl TypeError"

section \<open>FlVideoFilesExtractor\<close>

text \<open>
  The extractor object, with the fields its constructor stores. An entry of
  \<open>video_files_metadata\<close> is a dictionary; the code reads its keys \<open>name\<close> and
  \<open>camera_id\<close>.
\<close>

record fl_video_files_extractor =
  raw_data_path :: string
  video_files_metadata :: "pydict list"
  convert_timestamps :: bool
  return_timestamps :: bool

text \<open>The dictionary \<open>{"name": ..., "timestamps": ..., "device": ...}\<close> built per stream.\<close>

record fl_video_file =
  name :: pyval
  timestamps :: pyval
  device :: pyval

text \<open>
  What the extractor does to the outside: it calls the Trodes file reader with an
  argument, and it logs at level info (the format string and its argument).
\<close>

datatype vevent = FileRead pyval | LogInfo string pyval

text \<open>
  \<open>readTrodesExtractedDataFile\<close> belongs to the package rec_to_binaries; it is a
  parameter \<open>rd\<close> of the model: given its argument and the world it raises or returns a
  value. Each call is recorded.
\<close>

type_synonym 'w reader = "pyval \<Rightarrow> 'w \<Rightarrow> (error + pyval) \<times> 'w"

definition readTrodesExtractedDataFile :: "'w reader \<Rightarrow> pyval \<Rightarrow> ('w, vevent, pyval) prog" where
  "readTrodesExtractedDataFile rd arg = (\<lambda>w. case rd arg w of (r, w1) \<Rightarrow> (r, w1, [FileRead arg]))"

text \<open>
  \<open>_read_video_timestamps_hw_sync\<close>. The argument of the reader is the whole
  expression \<open>os.path.join(...)['data']['HWTimestamp']\<close>: both subscripts are inside the
  call's parentheses, so they are applied to the joined path before the reader is called.
\<close>

definition read_video_timestamps_hw_sync ::
  "'w reader \<Rightarrow> fl_video_files_extractor \<Rightarrow> pydict \<Rightarrow> ('w, vevent, pyval) prog" where
  "read_video_timestamps_hw_sync rd self video_file =
     bindp (liftp (py_dict_get video_file ''name'')) (\<lambda>nm.
     bindp (liftp (py_slice_to_minus4 nm)) (\<lambda>stem.
     bindp (liftp (py_add_str stem ''videoTimeStamps.cameraHWSync'')) (\<lambda>fname.
     bindp (liftp (os_path_join (raw_data_path self) fname)) (\<lambda>p.
     bindp (liftp (py_getitem_str p ''data'')) (\<lambda>d.
     bindp (liftp (py_getitem_str d ''HWTimestamp'')) (\<lambda>arg.
     readTrodesExtractedDataFile rd arg))))))"

text \<open>\<open>_read_video_timestamps_hw_framecount\<close>, of the same shape.\<close>

definition read_video_timestamps_hw_framecount ::
  "'w reader \<Rightarrow> fl_video_files_extractor \<Rightarrow> pydict \<Rightarrow> ('w, vevent, pyval) prog" where
  "read_video_timestamps_hw_framecount rd self video_file =
     bindp (liftp (py_dict_get video_file ''name'')) (\<lambda>nm.
     bindp (liftp (py_slice_to_minus4 nm)) (\<lambda>stem.
     bindp (liftp (py_add_str stem ''videoTimeStamps.cameraHWFrameCount'')) (\<lambda>fname.
     bindp (liftp (os_path_join (raw_data_path self) fname)) (\<lambda>p.
     bindp (liftp (py_getitem_str p ''data'')) (\<lambda>d.
     bindp (liftp (py_getitem_str d ''frameCount'')) (\<lambda>arg.
     readTrodesExtractedDataFile rd arg))))))"

text \<open>\<open>_convert_timestamps\<close>: nanoseconds to seconds.\<close>

definition convert_timestamps_fn :: "pyval \<Rightarrow> error + pyval" where
  "convert_timestamps_fn ts = py_truediv ts NANOSECONDS_PER_SECOND"

text \<open>The argument of both log messages, \<open>video_file['name'][:-4]\<close>.\<close>

definition name_stem :: "pydict \<Rightarrow> ('w, vevent, pyval) prog" where
  "name_stem video_file =
     bindp (liftp (py_dict_get video_file ''name'')) (\<lambda>nm. liftp (py_slice_to_minus4 nm))"

text \<open>
  The body of \<open>_get_timestamps\<close>, with the two methods it calls on \<open>self\<close> as
  parameters \<open>hw\<close> and \<open>fc\<close>: the \<open>try\<close> block reads, logs and sets
  \<open>is_old_dataset = False\<close>; the \<open>except FileNotFoundError\<close> clause reads the frame
  counts, logs and sets it to \<open>True\<close>; then the conversion is skipped for an old dataset
  or when the flag is off.
\<close>

definition get_timestamps_with ::
  "(pydict \<Rightarrow> ('w, vevent, pyval) prog) \<Rightarrow> (pydict \<Rightarrow> ('w, vevent, pyval) prog) \<Rightarrow>
   fl_video_files_extractor \<Rightarrow> pydict \<Rightarrow> ('w, vevent, pyval) prog" where
  "get_timestamps_with hw fc self video_file =
     bindp
       (try_except
          (bindp (hw video_file) (\<lambda>video_timestamps.
           bindp (name_stem video_file) (\<lambda>stem.
           bindp (emit (LogInfo ''Loaded cameraHWSync timestamps for {}'' stem)) (\<lambda>_.
           returnp (video_timestamps, False)))))
          (\<lambda>e. e = FileNotFoundError)
          (bindp (fc video_file) (\<lambda>video_timestamps.
           bindp (name_stem video_file) (\<lambda>stem.
           bindp (emit (LogInfo ''Loaded cameraHWFrameCount for {} (old dataset)'' stem)) (\<lambda>_.
           returnp (video_timestamps, True))))))
       (\<lambda>(video_timestamps, is_old_dataset).
          if is_old_dataset \<or> \<not> convert_timestamps self then returnp video_timestamps
          else liftp (convert_timestamps_fn video_timestamps))"

text \<open>\<open>_get_timestamps\<close> of the class: the two reads are the class's own methods.\<close>

definition get_timestamps ::
  "'w reader \<Rightarrow> fl_video_files_extractor \<Rightarrow> pydict \<Rightarrow> ('w, vevent, pyval) prog" where
  "get_timestamps rd self video_file =
     get_timestamps_with (read_video_timestamps_hw_sync rd self)
       (read_video_timestamps_hw_framecount rd self) self video_file"

text \<open>
  The loop of \<open>extract_video_files\<close> over the remaining entries, with the list
  \<open>extracted_video_files\<close> built so far.
\<close>

fun extract_loop ::
  "'w reader \<Rightarrow> fl_video_files_extractor \<Rightarrow> pydict list \<Rightarrow> fl_video_file list \<Rightarrow>
   ('w, vevent, fl_video_file list) prog" where
  "extract_loop rd self [] extracted_video_files = returnp extracted_video_files"
| "extract_loop rd self (video_file # rest) extracted_video_files =
     bindp (if return_timestamps self then get_timestamps rd self video_file
            else returnp (PFloatArr [])) (\<lambda>ts.
     bindp (liftp (py_dict_get video_file ''name'')) (\<lambda>nm.
     bindp (liftp (py_dict_get video_file ''camera_id'')) (\<lambda>dev.
     extract_loop rd self rest
       (extracted_video_files @ [\<lparr>name = nm, timestamps = ts, device = dev\<rparr>]))))"

definition extract_video_files ::
  "'w reader \<Rightarrow> fl_video_files_extractor \<Rightarrow> ('w, vevent, fl_video_file list) prog" where
  "extract_video_files rd self = extract_loop rd self (video_files_metadata self) []"

text \<open>
  Two notions used to state properties of the output: a metadata entry that has both keys
  the loop reads, and the record the loop builds for such an entry when it retrieves no
  timestamps.
\<close>

definition has_keys :: "pydict \<Rightarrow> bool" where
  "has_keys video_file =
     (map_of video_file ''name'' \<noteq> None \<and> map_of video_file ''camera_id'' \<noteq> None)"

definition without_timestamps :: "pydict \<Rightarrow> fl_video_file" where
  "without_timestamps video_file =
     \<lparr>name = the (map_of video_file ''name''), timestamps = PFloatArr [],
      device = the (map_of video_file ''camera_id'')\<rparr>"

section \<open>RawToNWBBuilder\<close>

text \<open>
  The orchestrator object. Its constructor also stores \<open>nwb_metadata.metadata\<close> and
  \<open>nwb_metadata.probes\<close>; no method of the class reads them, and the record leaves
  them out. \<open>'m\<close> is the type of the metadata object.
\<close>

record 'm raw_to_nwb_builder =
  extract_analog :: bool
  extract_spikes :: bool
  extract_dio :: bool
  extract_lfps :: bool
  extract_mda :: bool
  extract_time :: bool
  animal_name :: string
  data_path :: string
  dates :: "string list"
  output_path :: string
  nwb_metadata :: 'm
  parallel_instances :: int

text \<open>The arguments of \<open>extract_trodes_rec_file\<close>, as \<open>__preprocess_data\<close> passes them.\<close>

record extract_args =
  x_data_path :: string
  x_animal_name :: string
  x_parallel_instances :: int
  x_extract_analog :: bool
  x_extract_dio :: bool
  x_extract_time :: bool
  x_extract_mda :: bool
  x_extract_lfps :: bool
  x_extract_spikes :: bool

text \<open>The keyword arguments of the \<open>NWBFileBuilder\<close> constructor.\<close>

record 'm builder_args =
  b_data_path :: string
  b_animal_name :: string
  b_date :: string
  b_nwb_metadata :: 'm
  b_output_file :: string
  b_process_mda :: bool
  b_process_dio :: bool

text \<open>
  The collaborators of \<open>build_nwb\<close> are not part of this module: the raw extractor
  of rec_to_binaries, and the container builder with its constructor, its \<open>build\<close>
  and its \<open>write\<close>. Each is a parameter: on the world it raises or returns, and leaves
  a new world. \<open>'b\<close> is the type of builder objects, \<open>'c\<close> of contents.
\<close>

record ('w, 'm, 'b, 'c) collaborators =
  extract_trodes_rec_file :: "extract_args \<Rightarrow> 'w \<Rightarrow> (error + unit) \<times> 'w"
  NWBFileBuilder :: "'m builder_args \<Rightarrow> 'w \<Rightarrow> (error + 'b) \<times> 'w"
  builder_build :: "'b \<Rightarrow> 'w \<Rightarrow> (error + 'c) \<times> 'w"
  builder_write :: "'b \<Rightarrow> 'c \<Rightarrow> 'w \<Rightarrow> (error + unit) \<times> 'w"

text \<open>Each call to a collaborator is recorded with its arguments and its outcome.\<close>

datatype ('m, 'b, 'c) bevent =
    CallExtract extract_args "error + unit"
  | CallConstruct "'m builder_args" "error + 'b"
  | CallBuild 'b "error + 'c"
  | CallWrite 'b 'c "error + unit"

definition call :: "((error + 'a) \<Rightarrow> 'e) \<Rightarrow> ('w \<Rightarrow> (error + 'a) \<times> 'w) \<Rightarrow> ('w, 'e, 'a) prog" where
  "call ev f = (\<lambda>w. case f w of (r, w1) \<Rightarrow> (r, w1, [ev r]))"

definition preprocess_args :: "'m raw_to_nwb_builder \<Rightarrow> extract_args" where
  "preprocess_args self =
     \<lparr>x_data_path = data_path self,
      x_animal_name = animal_name self,
      x_parallel_instances = parallel_instances self,
      x_extract_analog = extract_analog self,
      x_extract_dio = extract_dio self,
      x_extract_time = extract_time self,
      x_extract_mda = extract_mda self,
      x_extract_lfps = extract_lfps self,
      x_extract_spikes = extract_spikes self\<rparr>"

text \<open>\<open>__preprocess_data\<close>.\<close>

definition preprocess_data ::
  "('w, 'm, 'b, 'c) collaborators \<Rightarrow> 'm raw_to_nwb_builder \<Rightarrow> ('w, ('m, 'b, 'c) bevent, unit) prog" where
  "preprocess_data C self =
     call (CallExtract (preprocess_args self)) (extract_trodes_rec_file C (preprocess_args self))"

text \<open>The constructor call of the loop body, for one date.\<close>

definition nwb_builder_args :: "'m raw_to_nwb_builder \<Rightarrow> string \<Rightarrow> 'm builder_args" where
  "nwb_builder_args self date =
     \<lparr>b_data_path = data_path self,
      b_animal_name = animal_name self,
      b_date = date,
      b_nwb_metadata = nwb_metadata self,
      b_output_file = output_path self @ animal_name self @ date @ ''.nwb'',
      b_process_mda = extract_mda self,
      b_process_dio = extract_dio self\<rparr>"

text \<open>
  The \<open>for\<close> loop of \<open>build_nwb\<close> over the remaining dates. The local variable
  \<open>content\<close> is unbound (\<open>None\<close>) until the first iteration assigns it.
\<close>

fun build_loop ::
  "('w, 'm, 'b, 'c) collaborators \<Rightarrow> 'm raw_to_nwb_builder \<Rightarrow> string list \<Rightarrow> 'c option \<Rightarrow>
   ('w, ('m, 'b, 'c) bevent, 'c option) prog" where
  "build_loop C self [] content = returnp content"
| "build_loop C self (date # rest) content =
     bindp (call (CallConstruct (nwb_builder_args self date))
              (NWBFileBuilder C (nwb_builder_args self date))) (\<lambda>nwb_builder.
     bindp (call (CallBuild nwb_builder) (builder_build C nwb_builder)) (\<lambda>content'.
     bindp (call (CallWrite nwb_builder content') (builder_write C nwb_builder content')) (\<lambda>_.
     build_loop C self rest (Some content'))))"

text \<open>\<open>build_nwb\<close>: \<open>return content\<close> reads the local variable, bound or not.\<close>

definition build_nwb ::
  "('w, 'm, 'b, 'c) collaborators \<Rightarrow> 'm raw_to_nwb_builder \<Rightarrow> ('w, ('m, 'b, 'c) bevent, 'c) prog" where
  "build_nwb C self =
     bindp (preprocess_data C self) (\<lambda>_.
     bindp (build_loop C self (dates self) None) (\<lambda>content.
     case content of None \<Rightarrow> raisep UnboundLocalError | Some c \<Rightarrow> returnp c))"

text \<open>An event whose call returned, and the three events of one date that went through.\<close>

fun returned :: "('m, 'b, 'c) bevent \<Rightarrow> bool" where
  "returned (CallExtract a r) = (\<not> isl r)"
| "returned (CallConstruct a r) = (\<not> isl r)"
| "returned (CallBuild b r) = (\<not> isl r)"
| "returned (CallWrite b c r) = (\<not> isl r)"

fun is_extract :: "('m, 'b, 'c) bevent \<Rightarrow> bool" where
  "is_extract (CallExtract a r) = True"
| "is_extract ev = False"

definition date_events ::
  "'m raw_to_nwb_builder \<Rightarrow> string \<times> 'b \<times> 'c \<Rightarrow> ('m, 'b, 'c) bevent list" where
  "date_events self dbc =
     (case dbc of (date, b, c) \<Rightarrow>
        [CallConstruct (nwb_builder_args self date) (Inr b), CallBuild b (Inr c),
         CallWrite b c (Inr ())])"

text \<open>
  The calls of one date that did not go through: the constructor raised, or it returned
  and \<open>build\<close> raised, or both returned and \<open>write\<close> raised.
\<close>

definition stopped_at ::
  "'m raw_to_nwb_builder \<Rightarrow> string \<Rightarrow> error \<Rightarrow> ('m, 'b, 'c) bevent list \<Rightarrow> bool" where
  "stopped_at self date e tail =
     (tail = [CallConstruct (nwb_builder_args self date) (Inl e)]
      \<or> (\<exists>b. tail = [CallConstruct (nwb_builder_args self date) (Inr b), CallBuild b (Inl e)])
      \<or> (\<exists>b c. tail = [CallConstruct (nwb_builder_args self date) (Inr b), CallBuild b (Inr c),
                         CallWrite b c (Inl e)]))"

text \<open>
  A list of events is a faithful record from a world when each event is the call of the
  real collaborator at the world the calls before it left, with the outcome that call
  has there; the result is the world after the last call.
\<close>

fun replay :: "('w, 'm, 'b, 'c) collaborators \<Rightarrow> 'w \<Rightarrow> ('m, 'b, 'c) bevent list \<Rightarrow> 'w option" where
  "replay C w [] = Some w"
| "replay C w (CallExtract a r # t) =
     (case extract_trodes_rec_file C a w of (r', w1) \<Rightarrow> if r' = r then replay C w1 t else None)"
| "replay C w (CallConstruct a r # t) =
     (case NWBFileBuilder C a w of (r', w1) \<Rightarrow> if r' = r then replay C w1 t else None)"
| "replay C w (CallBuild b r # t) =
     (case builder_build C b w of (r', w1) \<Rightarrow> if r' = r then replay C w1 t else None)"
| "replay C w (CallWrite b c r # t) =
     (case builder_write C b c w of (r', w1) \<Rightarrow> if r' = r then replay C w1 t else None)"

subsection \<open>cleanup\<close>

text \<open>
  \<open>os.path.exists\<close> and \<open>shutil.rmtree\<close> are the standard library's; they are
  parameters of the model, on a file system of type \<open>'fs\<close>. \<open>os.path.exists\<close> does
  not raise and does not change the file system.
\<close>

record 'fs file_ops =
  os_path_exists :: "string \<Rightarrow> 'fs \<Rightarrow> bool"
  shutil_rmtree :: "string \<Rightarrow> 'fs \<Rightarrow> (error + unit) \<times> 'fs"

datatype fevent = CallRmtree string "error + unit"

definition cleanup :: "'fs file_ops \<Rightarrow> 'm raw_to_nwb_builder \<Rightarrow> ('fs, fevent, unit) prog" where
  "cleanup F self =
     (\<lambda>fs. let preprocessing = data_path self @ ''/'' @ animal_name self @ ''/preprocessing'' in
        if os_path_exists F preprocessing fs
        then call (CallRmtree preprocessing) (shutil_rmtree F preprocessing) fs
        else returnp () fs)"

text \<open>
  What the documentation of \<open>shutil.rmtree\<close> promises when it returns: the path is
  gone.
\<close>

definition rmtree_removes :: "'fs file_ops \<Rightarrow> bool" where
  "rmtree_removes F =
     (\<forall>p fs fs'. shutil_rmtree F p fs = (Inr (), fs') \<longrightarrow> \<not> os_path_exists F p fs')"

text \<open>
  A small file system to run \<open>cleanup\<close> on: the list of the paths that exist.
  Removing a tree removes the path and every path below it.
\<close>

definition below :: "string \<Rightarrow> string \<Rightarrow> bool" where
  "below p q = (take (length p + 1) q = p @ ''/'')"

definition paths_ops :: "string list file_ops" where
  "paths_ops =
     \<lparr>os_path_exists = (\<lambda>p fs. p \<in> set fs),
      shutil_rmtree = (\<lambda>p fs.
        if p \<in> set fs then (Inr (), filter (\<lambda>q. q \<noteq> p \<and> \<not> below p q) fs)
        else (Inl FileNotFoundError, fs))\<rparr>"

section \<open>Concrete inputs\<close>

text \<open>
  Two camera streams under \<open>/data\<close>, with the two flags of the extractor as arguments;
  a reader for a directory that holds the hardware-sync files of both streams, and one for
  a directory that holds only their frame-count files.
\<close>

definition example_extractor :: "bool \<Rightarrow> bool \<Rightarrow> fl_video_files_extractor" where
  "example_extractor conv ret =
     \<lparr>raw_data_path = ''/data'',
      video_files_metadata =
        [[(''name'', PStr ''camA.mp4''), (''camera_id'', PInt 7)],
         [(''name'', PStr ''camB.mp4''), (''camera_id'', PInt 8)]],
      convert_timestamps = conv,
      return_timestamps = ret\<rparr>"

definition hw_sync_reader :: "unit reader" where
  "hw_sync_reader arg w =
     (if arg = PStr ''/data/camAvideoTimeStamps.cameraHWSync''
         \<or> arg = PStr ''/data/camBvideoTimeStamps.cameraHWSync''
      then Inr (PDict [(''data'', PDict [(''HWTimestamp'', PIntArr [1000000000, 2000000000])])])
      else Inl FileNotFoundError, w)"

definition framecount_reader :: "unit reader" where
  "framecount_reader arg w =
     (if arg = PStr ''/data/camAvideoTimeStamps.cameraHWFrameCount''
         \<or> arg = PStr ''/data/camBvideoTimeStamps.cameraHWFrameCount''
      then Inr (PDict [(''data'', PDict [(''frameCount'', PIntArr [0, 1, 2])])])
      else Inl FileNotFoundError, w)"


text \<open>
  An orchestrator for the subject \<open>beans\<close> with the given dates; collaborators that
  never fail, on a world that lists the files written so far; and a file system with a
  preprocessing directory.
\<close>

definition example_collaborators :: "(string list, unit, string, string) collaborators" where
  "example_collaborators =
     \<lparr>extract_trodes_rec_file = (\<lambda>a w. (Inr (), w)),
      NWBFileBuilder = (\<lambda>a w. (Inr (b_output_file a), w)),
      builder_build = (\<lambda>b w. (Inr (''content:'' @ b), w)),
      builder_write = (\<lambda>b c w. (Inr (), w @ [b]))\<rparr>"

text \<open>
  Collaborators whose \<open>write\<close> goes through once and raises PermissionError from then
  on.
\<close>

definition failing_collaborators :: "(string list, unit, string, string) collaborators" where
  "failing_collaborators =
     \<lparr>extract_trodes_rec_file = (\<lambda>a w. (Inr (), w)),
      NWBFileBuilder = (\<lambda>a w. (Inr (b_output_file a), w)),
      builder_build = (\<lambda>b w. (Inr (''content:'' @ b), w)),
      builder_write = (\<lambda>b c w. if w = [] then (Inr (), w @ [b]) else (Inl PermissionError, w))\<rparr>"

definition example_builder :: "string list \<Rightarrow> unit raw_to_nwb_builder" where
  "example_builder ds =
     \<lparr>extract_analog = False, extract_spikes = False, extract_dio = True,
      extract_lfps = False, extract_mda = True, extract_time = True,
      animal_name = ''beans'', data_path = ''/data'', dates = ds,
      output_path = ''/out/'', nwb_metadata = (), parallel_instances = 4\<rparr>"

definition example_paths :: "string list" where
  "example_paths =
     [''/data/beans/raw'', ''/data/beans/preprocessing'',
      ''/data/beans/preprocessing/20190718'', ''/data/beans/preprocessing/20190718/a.dat'',
      ''/data/beans/preprocessing.log'']"

section \<open>Properties\<close>

subsection \<open>Running programs\<close>

lemma raisep_apply: "raisep e w = (Inl e, w, [])"
  by (simp add: raisep_def)

lemma returnp_apply: "returnp x w = (Inr x, w, [])"
  by (simp add: returnp_def)

lemma bindp_liftp_Inr [simp]: "bindp (liftp (Inr x)) f = f x"
  by (rule ext) (simp add: bindp_def liftp_def split: prod.splits)

lemma bindp_liftp_Inl [simp]: "bindp (liftp (Inl e)) f = raisep e"
  by (rule ext) (simp add: bindp_def liftp_def raisep_def)

lemma bindp_returnp [simp]: "bindp (returnp x) f = f x"
  by (rule ext) (simp add: bindp_def returnp_def split: prod.splits)

lemma bindp_raisep [simp]: "bindp (raisep e) f = raisep e"
  by (rule ext) (simp add: bindp_def raisep_def)

lemma bindp_Inr_iff:
  "bindp m f w = (Inr b, w', t) \<longleftrightarrow>
     (\<exists>a w1 t1 t2. m w = (Inr a, w1, t1) \<and> f a w1 = (Inr b, w', t2) \<and> t = t1 @ t2)"
  by (auto simp: bindp_def split: prod.splits sum.splits)

lemma liftp_Inr_iff: "liftp r w = (Inr a, w', t) \<longleftrightarrow> r = Inr a \<and> w' = w \<and> t = []"
  by (auto simp: liftp_def)

lemma returnp_iff: "returnp x w = (r, w', t) \<longleftrightarrow> r = Inr x \<and> w' = w \<and> t = []"
  by (auto simp: returnp_def)

lemma py_dict_get_Inr_iff: "py_dict_get d k = Inr v \<longleftrightarrow> map_of d k = Some v"
  by (simp add: py_dict_get_def split: option.splits)

lemma bindp_call:
  "bindp (call ev f) g w =
     (case f w of
        (Inl e, w1) \<Rightarrow> (Inl e, w1, [ev (Inl e)])
      | (Inr a, w1) \<Rightarrow> (case g a w1 of (r, w2, t2) \<Rightarrow> (r, w2, ev (Inr a) # t2)))"
  by (simp add: bindp_def call_def split: prod.splits sum.splits)

subsection \<open>The reads of the extractor\<close>

text \<open>
  Whatever \<open>os.path.join\<close> returns is a string, and a string subscripted with
  \<open>'data'\<close> is a TypeError: the rest of the argument expression, and the call of the
  reader, are never reached.
\<close>

lemma path_arg_raises:
  "bindp (liftp (os_path_join a v)) (\<lambda>p. bindp (liftp (py_getitem_str p k)) g) = raisep TypeError"
  by (cases "(a, v)" rule: os_path_join.cases) auto

lemma stem_name_raises:
  "bindp (liftp (py_slice_to_minus4 v)) (\<lambda>stem.
     bindp (liftp (py_add_str stem sfx)) (\<lambda>fname.
     bindp (liftp (os_path_join a fname)) (\<lambda>p. bindp (liftp (py_getitem_str p k)) g)))
   = raisep TypeError"
  by (cases v) (simp_all add: path_arg_raises)

lemma hw_sync_raises:
  "read_video_timestamps_hw_sync rd self vf =
     raisep (if map_of vf ''name'' = None then KeyError else TypeError)"
  by (auto simp: read_video_timestamps_hw_sync_def py_dict_get_def stem_name_raises)


lemma try_except_raisep:
  "try_except (raisep e) catches h = (if catches e then h else raisep e)"
  by (rule ext) (simp add: try_except_def raisep_def split: prod.splits)

lemma get_timestamps_raises:
  "get_timestamps rd self vf =
     raisep (if map_of vf ''name'' = None then KeyError else TypeError)"
  by (simp add: get_timestamps_def get_timestamps_with_def hw_sync_raises try_except_raisep)

subsection \<open>The video-file extractor\<close>

lemma extract_loop_names:
  "extract_loop rd self vfs acc w = (Inr recs, w', t) \<Longrightarrow>
   map (\<lambda>r. (Some (name r), Some (device r))) recs =
     map (\<lambda>r. (Some (name r), Some (device r))) acc @
     map (\<lambda>vf. (map_of vf ''name'', map_of vf ''camera_id'')) vfs"
proof (induction vfs arbitrary: acc w t)
  case Nil
  then show ?case by (simp add: returnp_iff)
next
  case (Cons vf vfs)
  from Cons.prems obtain ts nm dev w1 t2 where
    nm: "map_of vf ''name'' = Some nm" and dev: "map_of vf ''camera_id'' = Some dev"
    and rest: "extract_loop rd self vfs (acc @ [\<lparr>name = nm, timestamps = ts, device = dev\<rparr>]) w1
               = (Inr recs, w', t2)"
    by (auto simp: bindp_Inr_iff liftp_Inr_iff py_dict_get_Inr_iff)
  from Cons.IH [OF rest] nm dev show ?case by simp
qed

lemma extract_loop_no_timestamps:
  "\<not> return_timestamps self \<Longrightarrow>
   extract_loop rd self vfs acc w =
     (if list_all has_keys vfs then Inr (acc @ map without_timestamps vfs) else Inl KeyError, w, [])"
proof (induction vfs arbitrary: acc)
  case Nil
  then show ?case by (simp add: returnp_def)
next
  case (Cons vf vfs)
  show ?case
  proof (cases "map_of vf ''name''")
    case None
    with Cons.prems show ?thesis
      by (simp add: py_dict_get_def raisep_def has_keys_def)
  next
    case nm: (Some nm)
    show ?thesis
    proof (cases "map_of vf ''camera_id''")
      case None
      with Cons.prems nm show ?thesis
        by (simp add: py_dict_get_def raisep_def has_keys_def)
    next
      case (Some dev)
      with Cons.prems nm Cons.IH [OF Cons.prems] show ?thesis
        by (simp add: py_dict_get_def has_keys_def without_timestamps_def)
    qed
  qed
qed

text \<open>
  Past the two reads the body of \<open>_get_timestamps\<close> does what its comments say: with a
  hardware-sync read that returns, the value is divided by \<open>10^9\<close> exactly when
  \<open>convert_timestamps\<close> is on, and the message of the new format is logged.
\<close>

lemma get_timestamps_with_hw_sync_returns:
  "hw vf w = (Inr ts, w1, t1) \<Longrightarrow> map_of vf ''name'' = Some (PStr n) \<Longrightarrow>
   get_timestamps_with hw fc self vf w =
     (if convert_timestamps self then convert_timestamps_fn ts else Inr ts, w1,
      t1 @ [LogInfo ''Loaded cameraHWSync timestamps for {}'' (PStr (take (length n - 4) n))])"
  by (simp add: get_timestamps_with_def bindp_def try_except_def name_stem_def liftp_def
        py_dict_get_def emit_def returnp_def)

lemma convert_timestamps_fn_array:
  "convert_timestamps_fn (PIntArr xs) = Inr (PFloatArr (map (\<lambda>i. real_of_int i / 10 ^ 9) xs))"
  by (simp add: convert_timestamps_fn_def NANOSECONDS_PER_SECOND_def)

text \<open>
  C1 (hardware-sync timestamps). The specification: for a stream whose file
  \<open><stem>videoTimeStamps.cameraHWSync\<close> exists, the record's timestamps are the file's
  \<open>HWTimestamp\<close> values divided by \<open>10^9\<close> when \<open>convert_timestamps\<close> is on, and the raw
  values when it is off. The class's own read does not get there. In the directory
  \<open>/data\<close> the file of \<open>camA.mp4\<close> exists and the reader returns its two timestamps for
  the joined path; yet \<open>extract_video_files\<close> raises TypeError for both values of the
  flag, without calling the reader and without producing a record.
\<close>

theorem hw_sync_extract_type_error:
  "os_path_join ''/data'' (PStr ''camAvideoTimeStamps.cameraHWSync'')
     = Inr (PStr ''/data/camAvideoTimeStamps.cameraHWSync'')
   \<and> hw_sync_reader (PStr ''/data/camAvideoTimeStamps.cameraHWSync'') ()
     = (Inr (PDict [(''data'', PDict [(''HWTimestamp'', PIntArr [1000000000, 2000000000])])]), ())
   \<and> extract_video_files hw_sync_reader (example_extractor True True) () = (Inl TypeError, (), [])
   \<and> extract_video_files hw_sync_reader (example_extractor False True) () = (Inl TypeError, (), [])"
  by (simp add: hw_sync_reader_def extract_video_files_def example_extractor_def
        get_timestamps_raises raisep_apply)

text \<open>
  C2 (frame-count timestamps). The specification: for a stream whose hardware-sync file
  is absent and whose file \<open><stem>videoTimeStamps.cameraHWFrameCount\<close> exists, the
  record's timestamps are the raw \<open>frameCount\<close> values for both values of the flag
  (old datasets are never converted). On a directory
  with only the frame-count files, where the reader answers FileNotFoundError for the
  hardware-sync path and the frame counts for the other, \<open>extract_video_files\<close> raises
  TypeError for both values of the flag: the reader is never asked.
\<close>

theorem framecount_extract_type_error:
  "os_path_join ''/data'' (PStr ''camAvideoTimeStamps.cameraHWFrameCount'')
     = Inr (PStr ''/data/camAvideoTimeStamps.cameraHWFrameCount'')
   \<and> framecount_reader (PStr ''/data/camAvideoTimeStamps.cameraHWSync'') ()
     = (Inl FileNotFoundError, ())
   \<and> framecount_reader (PStr ''/data/camAvideoTimeStamps.cameraHWFrameCount'') ()
     = (Inr (PDict [(''data'', PDict [(''frameCount'', PIntArr [0, 1, 2])])]), ())
   \<and> extract_video_files framecount_reader (example_extractor True True) () = (Inl TypeError, (), [])
   \<and> extract_video_files framecount_reader (example_extractor False True) () = (Inl TypeError, (), [])"
  by (simp add: framecount_reader_def extract_video_files_def example_extractor_def
        get_timestamps_raises raisep_apply)


text \<open>
  The \<open>try\<close>/\<open>except\<close> of \<open>_get_timestamps\<close> is written for the fallback: for any
  behaviour of the two read methods, a failure of the hardware-sync read other than
  FileNotFoundError is the failure of the whole, with nothing run after it; on
  FileNotFoundError the frame-count read runs next, and its failure, FileNotFoundError
  included, is the failure of the whole; when the frame-count read returns, its value is
  returned unconverted and the message of the old format is logged.
\<close>

lemma get_timestamps_with_handler:
  "(hw vf w = (Inl e, w1, t1) \<and> e \<noteq> FileNotFoundError \<longrightarrow>
      get_timestamps_with hw fc self vf w = (Inl e, w1, t1))
   \<and> (hw vf w = (Inl FileNotFoundError, w1, t1) \<and> fc vf w1 = (Inl e', w2, t2) \<longrightarrow>
      get_timestamps_with hw fc self vf w = (Inl e', w2, t1 @ t2))
   \<and> (hw vf w = (Inl FileNotFoundError, w1, t1) \<and> fc vf w1 = (Inr ts, w2, t2)
        \<and> map_of vf ''name'' = Some (PStr n) \<longrightarrow>
      get_timestamps_with hw fc self vf w =
        (Inr ts, w2, t1 @ t2 @
           [LogInfo ''Loaded cameraHWFrameCount for {} (old dataset)'' (PStr (take (length n - 4) n))]))"
  by (simp add: get_timestamps_with_def bindp_def try_except_def name_stem_def liftp_def
        py_dict_get_def emit_def returnp_def)


text \<open>
  C8 (timestamp retrieval off). When \<open>return_timestamps\<close> is false, \<open>extract_video_files\<close>
  calls the reader not once and logs nothing, and leaves the world as it was; every record
  it returns has the empty array as timestamps; and it does return records when every
  entry has its \<open>name\<close> and \<open>camera_id\<close>.
\<close>

theorem no_timestamps_no_file_access:
  "\<not> return_timestamps self \<Longrightarrow>
   snd (extract_video_files rd self w) = (w, [])
   \<and> (\<forall>recs. fst (extract_video_files rd self w) = Inr recs \<longrightarrow>
         list_all (\<lambda>r. timestamps r = PFloatArr []) recs)
   \<and> (list_all has_keys (video_files_metadata self) \<longrightarrow>
       (\<exists>recs. fst (extract_video_files rd self w) = Inr recs))"
proof -
  assume off: "\<not> return_timestamps self"
  have run: "extract_video_files rd self w =
      (if list_all has_keys (video_files_metadata self)
       then Inr (map without_timestamps (video_files_metadata self)) else Inl KeyError, w, [])"
    using extract_loop_no_timestamps [OF off, of rd "video_files_metadata self" "[]" w]
    by (simp add: extract_video_files_def)
  have emp: "list_all (\<lambda>r. timestamps r = PFloatArr []) (map without_timestamps vfs)" for vfs
    by (induction vfs) (simp_all add: without_timestamps_def)
  show ?thesis
    unfolding run using emp by (simp split: if_splits)
qed

theorem no_timestamps_no_file_access_witness:
  "\<not> return_timestamps (example_extractor True False)
   \<and> extract_video_files hw_sync_reader (example_extractor True False) () =
       (Inr [\<lparr>name = PStr ''camA.mp4'', timestamps = PFloatArr [], device = PInt 7\<rparr>,
             \<lparr>name = PStr ''camB.mp4'', timestamps = PFloatArr [], device = PInt 8\<rparr>], (), [])"
proof -
  have off: "\<not> return_timestamps (example_extractor True False)"
    by (simp add: example_extractor_def)
  have keys: "list_all has_keys (video_files_metadata (example_extractor True False))"
    by (simp add: example_extractor_def has_keys_def)
  from no_timestamps_no_file_access [OF off, of hw_sync_reader "()"] keys
  obtain recs where recs: "fst (extract_video_files hw_sync_reader (example_extractor True False) ()) = Inr recs"
    and rest: "snd (extract_video_files hw_sync_reader (example_extractor True False) ()) = ((), [])"
    by blast
  have "extract_video_files hw_sync_reader (example_extractor True False) () =
       (Inr [\<lparr>name = PStr ''camA.mp4'', timestamps = PFloatArr [], device = PInt 7\<rparr>,
             \<lparr>name = PStr ''camB.mp4'', timestamps = PFloatArr [], device = PInt 8\<rparr>], (), [])"
    by (simp add: extract_video_files_def example_extractor_def py_dict_get_def returnp_apply)
  with off show ?thesis by simp
qed

text \<open>
  C9 (one record per entry, in order). When \<open>extract_video_files\<close> returns, it returns as
  many records as there are entries; the names of the records are, in order, the values
  of \<open>name\<close> of the entries, and their devices the values of \<open>camera_id\<close>.
\<close>

theorem extract_preserves_order:
  "extract_video_files rd self w = (Inr recs, w', t) \<Longrightarrow>
   length recs = length (video_files_metadata self)
   \<and> map (\<lambda>r. Some (name r)) recs = map (\<lambda>vf. map_of vf ''name'') (video_files_metadata self)
   \<and> map (\<lambda>r. Some (device r)) recs = map (\<lambda>vf. map_of vf ''camera_id'') (video_files_metadata self)"
proof -
  let ?f = "\<lambda>r. (Some (name r), Some (device r))"
  let ?g = "\<lambda>vf. (map_of vf ''name'', map_of vf ''camera_id'')"
  assume "extract_video_files rd self w = (Inr recs, w', t)"
  then have eq: "map ?f recs = map ?g (video_files_metadata self)"
    using extract_loop_names [of rd self "video_files_metadata self" "[]" w recs w' t]
    by (simp add: extract_video_files_def)
  have "length (map ?f recs) = length (map ?g (video_files_metadata self))"
    by (simp only: eq)
  then have len: "length recs = length (video_files_metadata self)"
    by simp
  have "map fst (map ?f recs) = map fst (map ?g (video_files_metadata self))"
    by (simp only: eq)
  then have nm: "map (\<lambda>r. Some (name r)) recs = map (\<lambda>vf. map_of vf ''name'') (video_files_metadata self)"
    by (simp add: comp_def)
  have "map snd (map ?f recs) = map snd (map ?g (video_files_metadata self))"
    by (simp only: eq)
  then have dv: "map (\<lambda>r. Some (device r)) recs = map (\<lambda>vf. map_of vf ''camera_id'') (video_files_metadata self)"
    by (simp add: comp_def)
  from len nm dv show ?thesis by simp
qed

theorem extract_preserves_order_witness:
  "extract_video_files framecount_reader (example_extractor False False) () =
       (Inr [\<lparr>name = PStr ''camA.mp4'', timestamps = PFloatArr [], device = PInt 7\<rparr>,
             \<lparr>name = PStr ''camB.mp4'', timestamps = PFloatArr [], device = PInt 8\<rparr>], (), [])
   \<and> map (\<lambda>r. Some (name r))
        [\<lparr>name = PStr ''camA.mp4'', timestamps = PFloatArr [], device = PInt 7\<rparr>,
         \<lparr>name = PStr ''camB.mp4'', timestamps = PFloatArr [], device = PInt 8\<rparr>]
      = map (\<lambda>vf. map_of vf ''name'') (video_files_metadata (example_extractor False False))"
proof -
  have run: "extract_video_files framecount_reader (example_extractor False False) () =
       (Inr [\<lparr>name = PStr ''camA.mp4'', timestamps = PFloatArr [], device = PInt 7\<rparr>,
             \<lparr>name = PStr ''camB.mp4'', timestamps = PFloatArr [], device = PInt 8\<rparr>], (), [])"
    by (simp add: extract_video_files_def example_extractor_def py_dict_get_def returnp_apply)
  from extract_preserves_order [OF run] run show ?thesis by simp
qed

subsection \<open>The orchestrator\<close>

lemma build_loop_step:
  "build_loop C self (date # rest) content w =
     (case NWBFileBuilder C (nwb_builder_args self date) w of
        (Inl e, w1) \<Rightarrow> (Inl e, w1, [CallConstruct (nwb_builder_args self date) (Inl e)])
      | (Inr b, w1) \<Rightarrow>
          (case builder_build C b w1 of
             (Inl e, w2) \<Rightarrow>
               (Inl e, w2, [CallConstruct (nwb_builder_args self date) (Inr b), CallBuild b (Inl e)])
           | (Inr c, w2) \<Rightarrow>
               (case builder_write C b c w2 of
                  (Inl e, w3) \<Rightarrow>
                    (Inl e, w3, [CallConstruct (nwb_builder_args self date) (Inr b),
                                 CallBuild b (Inr c), CallWrite b c (Inl e)])
                | (Inr u, w3) \<Rightarrow>
                    (case build_loop C self rest (Some c) w3 of
                       (r, w4, t) \<Rightarrow> (r, w4, date_events self (date, b, c) @ t)))))"
  by (simp add: bindp_call date_events_def split: prod.splits sum.splits)

lemma build_loop_all_returned:
  "build_loop C self ds content w = (r, w', t) \<Longrightarrow> list_all returned t \<Longrightarrow>
   \<exists>bs cs. length bs = length ds \<and> length cs = length ds
     \<and> t = concat (map (date_events self) (zip ds (zip bs cs)))
     \<and> r = Inr (if ds = [] then content else Some (last cs))"
proof (induction ds arbitrary: content w r w' t)
  case Nil
  then show ?case by (simp add: returnp_def)
next
  case (Cons d ds)
  from Cons.prems obtain b c w3 t' where
    t: "t = date_events self (d, b, c) @ t'"
    and rest: "build_loop C self ds (Some c) w3 = (r, w', t')"
    unfolding build_loop_step
    by (auto split: prod.splits sum.splits)
  from Cons.prems(2) t have "list_all returned t'" by simp
  from Cons.IH [OF rest this] obtain bs cs where
    l: "length bs = length ds" "length cs = length ds"
    and t': "t' = concat (map (date_events self) (zip ds (zip bs cs)))"
    and r: "r = Inr (if ds = [] then Some c else Some (last cs))"
    by blast
  have "length (b # bs) = length (d # ds)" "length (c # cs) = length (d # ds)"
    using l by simp_all
  moreover have "t = concat (map (date_events self) (zip (d # ds) (zip (b # bs) (c # cs))))"
    using t t' by simp
  moreover have "r = Inr (if d # ds = [] then content else Some (last (c # cs)))"
    using r l by auto
  ultimately show ?case by blast
qed

lemma build_loop_result:
  "build_loop C self ds content w = (Inr r, w', t) \<Longrightarrow>
   (if ds = [] then r = content \<and> w' = w \<and> t = []
    else \<exists>pre b c. r = Some c \<and> t = pre @ date_events self (last ds, b, c))"
proof (induction ds arbitrary: content w t)
  case Nil
  then show ?case by (simp add: returnp_def)
next
  case (Cons d ds)
  from Cons.prems obtain b c w3 t' where
    t: "t = date_events self (d, b, c) @ t'"
    and rest: "build_loop C self ds (Some c) w3 = (Inr r, w', t')"
    unfolding build_loop_step
    by (auto split: prod.splits sum.splits)
  have "\<exists>pre b c. r = Some c \<and> t = pre @ date_events self (last (d # ds), b, c)"
  proof (cases "ds = []")
    case True
    with Cons.IH [OF rest] t have "r = Some c \<and> t = [] @ date_events self (last (d # ds), b, c)"
      by simp
    then show ?thesis by blast
  next
    case False
    with Cons.IH [OF rest] obtain pre b' c' where
      "r = Some c'" "t' = pre @ date_events self (last ds, b', c')" by auto
    with t False have "r = Some c' \<and> t = (date_events self (d, b, c) @ pre) @ date_events self (last (d # ds), b', c')"
      by simp
    then show ?thesis by blast
  qed
  then show ?case by simp
qed

lemma build_loop_no_extract:
  "build_loop C self ds content w = (r, w', t) \<Longrightarrow> list_all (\<lambda>ev. \<not> is_extract ev) t"
proof (induction ds arbitrary: content w t)
  case Nil
  then show ?case by (simp add: returnp_def)
next
  case (Cons d ds)
  from Cons.prems show ?case
    unfolding build_loop_step
    by (auto split: prod.splits sum.splits simp: date_events_def dest: Cons.IH)
qed

lemma build_loop_replay:
  "build_loop C self ds content w = (r, w', t) \<Longrightarrow> replay C w t = Some w'"
proof (induction ds arbitrary: content w t)
  case Nil
  then show ?case by (simp add: returnp_def)
next
  case (Cons d ds)
  from Cons.prems show ?case
    unfolding build_loop_step
    by (auto split: prod.splits sum.splits simp: date_events_def dest: Cons.IH)
qed

lemma build_loop_shape:
  "build_loop C self ds content w = (r, w', t) \<Longrightarrow>
   \<exists>k bs cs tail. k \<le> length ds \<and> length bs = k \<and> length cs = k
     \<and> t = concat (map (date_events self) (zip (take k ds) (zip bs cs))) @ tail
     \<and> (if k = length ds
         then tail = [] \<and> r = Inr (if ds = [] then content else Some (last cs))
         else \<exists>e. r = Inl e \<and> stopped_at self (ds ! k) e tail)"
proof (induction ds arbitrary: content w t)
  case Nil
  then show ?case by (simp add: returnp_def)
next
  case (Cons d ds)
  let ?P = "\<lambda>k bs cs tail. k \<le> length (d # ds) \<and> length bs = k \<and> length cs = k
     \<and> t = concat (map (date_events self) (zip (take k (d # ds)) (zip bs cs))) @ tail
     \<and> (if k = length (d # ds)
         then tail = [] \<and> r = Inr (if d # ds = [] then content else Some (last cs))
         else \<exists>e. r = Inl e \<and> stopped_at self ((d # ds) ! k) e tail)"
  consider
    (construct_fails) e where "r = Inl e" "t = [CallConstruct (nwb_builder_args self d) (Inl e)]"
  | (build_fails) e b where "r = Inl e"
      "t = [CallConstruct (nwb_builder_args self d) (Inr b), CallBuild b (Inl e)]"
  | (write_fails) e b c where "r = Inl e"
      "t = [CallConstruct (nwb_builder_args self d) (Inr b), CallBuild b (Inr c), CallWrite b c (Inl e)]"
  | (next_date) b c w3 t' where "t = date_events self (d, b, c) @ t'"
      "build_loop C self ds (Some c) w3 = (r, w', t')"
    using Cons.prems unfolding build_loop_step
    by (auto split: prod.splits sum.splits)
  then show ?case
  proof cases
    case construct_fails
    then have "?P 0 [] [] t" by (simp add: stopped_at_def)
    then show ?thesis by blast
  next
    case build_fails
    then have "?P 0 [] [] t" by (simp add: stopped_at_def)
    then show ?thesis by blast
  next
    case write_fails
    then have "?P 0 [] [] t" by (simp add: stopped_at_def)
    then show ?thesis by blast
  next
    case next_date
    from Cons.IH [OF next_date(2)] obtain k bs cs tail where
      k: "k \<le> length ds" "length bs = k" "length cs = k"
      and t': "t' = concat (map (date_events self) (zip (take k ds) (zip bs cs))) @ tail"
      and fin: "if k = length ds
         then tail = [] \<and> r = Inr (if ds = [] then Some c else Some (last cs))
         else \<exists>e. r = Inl e \<and> stopped_at self (ds ! k) e tail"
      by blast
    have "?P (Suc k) (b # bs) (c # cs) tail"
    proof (cases "k = length ds")
      case True
      with k t' fin next_date(1) show ?thesis by auto
    next
      case False
      with k t' fin next_date(1) show ?thesis by auto
    qed
    then show ?thesis by blast
  qed
qed

lemma build_nwb_unfold:
  "build_nwb C self w =
     (case extract_trodes_rec_file C (preprocess_args self) w of
        (Inl e, w1) \<Rightarrow> (Inl e, w1, [CallExtract (preprocess_args self) (Inl e)])
      | (Inr u, w1) \<Rightarrow>
          (case build_loop C self (dates self) None w1 of
             (Inl e, w2, t) \<Rightarrow> (Inl e, w2, CallExtract (preprocess_args self) (Inr u) # t)
           | (Inr None, w2, t) \<Rightarrow>
               (Inl UnboundLocalError, w2, CallExtract (preprocess_args self) (Inr u) # t)
           | (Inr (Some c), w2, t) \<Rightarrow>
               (Inr c, w2, CallExtract (preprocess_args self) (Inr u) # t)))"
  unfolding build_nwb_def preprocess_data_def bindp_call
  by (simp add: bindp_def raisep_def returnp_def split: prod.splits sum.splits option.splits)

lemma paths_ops_rmtree_removes: "rmtree_removes paths_ops"
  by (auto simp: rmtree_removes_def paths_ops_def split: if_splits)

text \<open>
  C5 (order of the calls). In every run of \<open>build_nwb\<close>, whether it returns or raises:
  the events are a faithful record of real calls, and the world left is theirs; the first
  call is the one call of the raw extractor, and no later call is one; if the extractor
  raised, that is the outcome and nothing else was called; if it returned, then for the
  first \<open>k\<close> dates, in the order of \<open>dates\<close>, the calls are the construction of that
  date's builder, its \<open>build\<close> and the \<open>write\<close> of what it built, date after date;
  either \<open>k\<close> is the number of dates and the run ends there, or the calls for date
  \<open>k\<close> stopped at the call that raised, its exception is the outcome, and no later date
  was touched. In particular, when no call raised, every date was built and written.
\<close>

theorem build_nwb_call_order:
  "build_nwb C self w = (r, w', t) \<Longrightarrow>
   replay C w t = Some w'
   \<and> (\<exists>x rest. t = CallExtract (preprocess_args self) x # rest
        \<and> list_all (\<lambda>ev. \<not> is_extract ev) rest
        \<and> (case x of
             Inl e \<Rightarrow> r = Inl e \<and> rest = []
           | Inr u \<Rightarrow>
               (\<exists>k bs cs tail. k \<le> length (dates self) \<and> length bs = k \<and> length cs = k
                  \<and> rest = concat (map (date_events self)
                              (zip (take k (dates self)) (zip bs cs))) @ tail
                  \<and> (if k = length (dates self)
                      then tail = []
                        \<and> r = (if dates self = [] then Inl UnboundLocalError else Inr (last cs))
                      else \<exists>e. r = Inl e \<and> stopped_at self (dates self ! k) e tail))))
   \<and> (list_all returned t \<longrightarrow>
       (\<exists>bs cs. length bs = length (dates self) \<and> length cs = length (dates self)
          \<and> t = CallExtract (preprocess_args self) (Inr ())
                # concat (map (date_events self) (zip (dates self) (zip bs cs)))))"
proof -
  assume run: "build_nwb C self w = (r, w', t)"
  obtain x w1 where pre: "extract_trodes_rec_file C (preprocess_args self) w = (x, w1)"
    by (cases "extract_trodes_rec_file C (preprocess_args self) w")
  show ?thesis
  proof (cases x)
    case (Inl e)
    with run pre have "r = Inl e" "w' = w1" "t = [CallExtract (preprocess_args self) (Inl e)]"
      by (auto simp: build_nwb_unfold)
    with pre Inl show ?thesis by simp
  next
    case (Inr u)
    obtain r1 w2 t1 where loop: "build_loop C self (dates self) None w1 = (r1, w2, t1)"
      by (cases "build_loop C self (dates self) None w1")
    from run pre Inr loop have t: "t = CallExtract (preprocess_args self) (Inr ()) # t1"
      and w': "w' = w2"
      and r: "r = (case r1 of Inl e \<Rightarrow> Inl e | Inr None \<Rightarrow> Inl UnboundLocalError
                   | Inr (Some c) \<Rightarrow> Inr c)"
      by (auto simp: build_nwb_unfold split: sum.splits option.splits)
    have played: "replay C w t = Some w'"
      using t w' pre Inr build_loop_replay [OF loop] by simp
    from build_loop_shape [OF loop] obtain k bs cs tail where
      k: "k \<le> length (dates self)" "length bs = k" "length cs = k"
      and t1: "t1 = concat (map (date_events self) (zip (take k (dates self)) (zip bs cs))) @ tail"
      and fin: "if k = length (dates self)
         then tail = [] \<and> r1 = Inr (if dates self = [] then None else Some (last cs))
         else \<exists>e. r1 = Inl e \<and> stopped_at self (dates self ! k) e tail"
      by blast
    have fin': "if k = length (dates self)
         then tail = [] \<and> r = (if dates self = [] then Inl UnboundLocalError else Inr (last cs))
         else \<exists>e. r = Inl e \<and> stopped_at self (dates self ! k) e tail"
      using fin r by (auto split: if_splits)
    have shape: "\<exists>k bs cs tail. k \<le> length (dates self) \<and> length bs = k \<and> length cs = k
                  \<and> t1 = concat (map (date_events self)
                              (zip (take k (dates self)) (zip bs cs))) @ tail
                  \<and> (if k = length (dates self)
                      then tail = []
                        \<and> r = (if dates self = [] then Inl UnboundLocalError else Inr (last cs))
                      else \<exists>e. r = Inl e \<and> stopped_at self (dates self ! k) e tail)"
      using k t1 fin' by blast
    have first: "\<exists>x rest. t = CallExtract (preprocess_args self) x # rest
        \<and> list_all (\<lambda>ev. \<not> is_extract ev) rest
        \<and> (case x of
             Inl e \<Rightarrow> r = Inl e \<and> rest = []
           | Inr u \<Rightarrow>
               (\<exists>k bs cs tail. k \<le> length (dates self) \<and> length bs = k \<and> length cs = k
                  \<and> rest = concat (map (date_events self)
                              (zip (take k (dates self)) (zip bs cs))) @ tail
                  \<and> (if k = length (dates self)
                      then tail = []
                        \<and> r = (if dates self = [] then Inl UnboundLocalError else Inr (last cs))
                      else \<exists>e. r = Inl e \<and> stopped_at self (dates self ! k) e tail)))"
    proof (intro exI conjI)
      show "t = CallExtract (preprocess_args self) (Inr ()) # t1" by (rule t)
      show "list_all (\<lambda>ev. \<not> is_extract ev) t1" by (rule build_loop_no_extract [OF loop])
      show "case (Inr () :: error + unit) of
             Inl e \<Rightarrow> r = Inl e \<and> t1 = []
           | Inr u \<Rightarrow>
               (\<exists>k bs cs tail. k \<le> length (dates self) \<and> length bs = k \<and> length cs = k
                  \<and> t1 = concat (map (date_events self)
                              (zip (take k (dates self)) (zip bs cs))) @ tail
                  \<and> (if k = length (dates self)
                      then tail = []
                        \<and> r = (if dates self = [] then Inl UnboundLocalError else Inr (last cs))
                      else \<exists>e. r = Inl e \<and> stopped_at self (dates self ! k) e tail))"
        using shape by simp
    qed
    have all: "\<exists>bs cs. length bs = length (dates self) \<and> length cs = length (dates self)
          \<and> t = CallExtract (preprocess_args self) (Inr ())
                # concat (map (date_events self) (zip (dates self) (zip bs cs)))"
      if "list_all returned t"
    proof -
      from that t have "list_all returned t1" by simp
      from build_loop_all_returned [OF loop this] t show ?thesis by blast
    qed
    from played first all show ?thesis by blast
  qed
qed

theorem build_nwb_call_order_witness:
  "build_nwb example_collaborators (example_builder [''20190718'', ''20190719'']) [] =
     (Inr ''content:/out/beans20190719.nwb'',
      [''/out/beans20190718.nwb'', ''/out/beans20190719.nwb''],
      CallExtract (preprocess_args (example_builder [''20190718'', ''20190719''])) (Inr ())
      # concat (map (date_events (example_builder [''20190718'', ''20190719'']))
          (zip [''20190718'', ''20190719'']
            (zip [''/out/beans20190718.nwb'', ''/out/beans20190719.nwb'']
                 [''content:/out/beans20190718.nwb'', ''content:/out/beans20190719.nwb'']))))
   \<and> (\<exists>bs cs. length bs = 2 \<and> length cs = 2
        \<and> snd (snd (build_nwb example_collaborators (example_builder [''20190718'', ''20190719'']) []))
           = CallExtract (preprocess_args (example_builder [''20190718'', ''20190719''])) (Inr ())
             # concat (map (date_events (example_builder [''20190718'', ''20190719'']))
                 (zip [''20190718'', ''20190719''] (zip bs cs))))
   \<and> build_nwb failing_collaborators (example_builder [''20190718'', ''20190719'', ''20190720'']) [] =
     (Inl PermissionError, [''/out/beans20190718.nwb''],
      CallExtract (preprocess_args (example_builder [''20190718'', ''20190719'', ''20190720''])) (Inr ())
      # date_events (example_builder [''20190718'', ''20190719'', ''20190720''])
          (''20190718'', ''/out/beans20190718.nwb'', ''content:/out/beans20190718.nwb'')
      @ [CallConstruct (nwb_builder_args (example_builder [''20190718'', ''20190719'', ''20190720''])
                          ''20190719'') (Inr ''/out/beans20190719.nwb''),
         CallBuild ''/out/beans20190719.nwb'' (Inr ''content:/out/beans20190719.nwb''),
         CallWrite ''/out/beans20190719.nwb'' ''content:/out/beans20190719.nwb''
           (Inl PermissionError)])
   \<and> replay failing_collaborators []
        (snd (snd (build_nwb failing_collaborators
                     (example_builder [''20190718'', ''20190719'', ''20190720'']) [])))
      = Some [''/out/beans20190718.nwb'']"
proof -
  let ?S = "example_builder [''20190718'', ''20190719'']"
  let ?S3 = "example_builder [''20190718'', ''20190719'', ''20190720'']"
  have run: "build_nwb example_collaborators ?S [] =
     (Inr ''content:/out/beans20190719.nwb'',
      [''/out/beans20190718.nwb'', ''/out/beans20190719.nwb''],
      CallExtract (preprocess_args ?S) (Inr ())
      # concat (map (date_events ?S)
          (zip [''20190718'', ''20190719'']
            (zip [''/out/beans20190718.nwb'', ''/out/beans20190719.nwb'']
                 [''content:/out/beans20190718.nwb'', ''content:/out/beans20190719.nwb'']))))"
    by (simp add: build_nwb_unfold bindp_call returnp_def
          example_collaborators_def example_builder_def nwb_builder_args_def date_events_def)
  have ok: "list_all returned (snd (snd (build_nwb example_collaborators ?S [])))"
    unfolding run by (simp add: date_events_def)
  have d: "dates ?S = [''20190718'', ''20190719'']" by (simp add: example_builder_def)
  have run3: "build_nwb failing_collaborators ?S3 [] =
     (Inl PermissionError, [''/out/beans20190718.nwb''],
      CallExtract (preprocess_args ?S3) (Inr ())
      # date_events ?S3 (''20190718'', ''/out/beans20190718.nwb'', ''content:/out/beans20190718.nwb'')
      @ [CallConstruct (nwb_builder_args ?S3 ''20190719'') (Inr ''/out/beans20190719.nwb''),
         CallBuild ''/out/beans20190719.nwb'' (Inr ''content:/out/beans20190719.nwb''),
         CallWrite ''/out/beans20190719.nwb'' ''content:/out/beans20190719.nwb''
           (Inl PermissionError)])"
    by (simp add: build_nwb_unfold bindp_call returnp_def
          failing_collaborators_def example_builder_def nwb_builder_args_def date_events_def)
  note all_returned = build_nwb_call_order [OF run, THEN conjunct2, THEN conjunct2]
  note replayed = build_nwb_call_order [OF run3, THEN conjunct1]
  have a: "\<exists>bs cs. length bs = 2 \<and> length cs = 2
        \<and> snd (snd (build_nwb example_collaborators ?S []))
           = CallExtract (preprocess_args ?S) (Inr ())
             # concat (map (date_events ?S) (zip [''20190718'', ''20190719''] (zip bs cs)))"
    using all_returned ok run d by (simp add: numeral_2_eq_2)
  have b: "replay failing_collaborators [] (snd (snd (build_nwb failing_collaborators ?S3 [])))
      = Some [''/out/beans20190718.nwb'']"
    using replayed by (simp only: run3 snd_conv)
  from run a run3 b show ?thesis by (intro conjI)
qed

text \<open>
  C6 (the value returned). With at least one date: when no call raised, \<open>build_nwb\<close>
  returns a content; and whenever it returns a content \<open>c\<close>, the last three calls were
  the construction of the builder for the last date, its \<open>build\<close>, which returned
  \<open>c\<close>, and the \<open>write\<close> of \<open>c\<close>. One content is returned: the contents of the earlier
  dates are not part of the result.
\<close>

theorem build_nwb_returns_last_content:
  "dates self \<noteq> [] \<Longrightarrow> build_nwb C self w = (r, w', t) \<Longrightarrow>
   (list_all returned t \<longrightarrow> (\<exists>c. r = Inr c))
   \<and> (\<forall>c. r = Inr c \<longrightarrow>
        (\<exists>pre b. t = pre @ [CallConstruct (nwb_builder_args self (last (dates self))) (Inr b),
                             CallBuild b (Inr c), CallWrite b c (Inr ())]))"
proof -
  assume ne: "dates self \<noteq> []" and run: "build_nwb C self w = (r, w', t)"
  obtain x w1 where pre: "extract_trodes_rec_file C (preprocess_args self) w = (x, w1)"
    by (cases "extract_trodes_rec_file C (preprocess_args self) w")
  obtain r1 w2 t1 where loop: "build_loop C self (dates self) None w1 = (r1, w2, t1)"
    by (cases "build_loop C self (dates self) None w1")
  have a: "\<exists>c. r = Inr c" if ok: "list_all returned t"
  proof (cases x)
    case (Inl e)
    with run pre ok show ?thesis by (auto simp: build_nwb_unfold)
  next
    case (Inr u)
    with run pre loop have t: "t = CallExtract (preprocess_args self) (Inr ()) # t1"
      by (auto simp: build_nwb_unfold split: sum.splits option.splits)
    with ok have "list_all returned t1" by simp
    from build_loop_all_returned [OF loop this] ne obtain cs where "r1 = Inr (Some (last cs))"
      by auto
    with run pre Inr loop show ?thesis by (auto simp: build_nwb_unfold)
  qed
  have b: "\<exists>pre b. t = pre @ [CallConstruct (nwb_builder_args self (last (dates self))) (Inr b),
                             CallBuild b (Inr c), CallWrite b c (Inr ())]" if ret: "r = Inr c" for c
  proof -
    from run pre loop ret have x: "x = Inr ()" and r1: "r1 = Inr (Some c)"
      and t: "t = CallExtract (preprocess_args self) (Inr ()) # t1"
      by (auto simp: build_nwb_unfold split: sum.splits option.splits)
    from loop r1 have "build_loop C self (dates self) None w1 = (Inr (Some c), w2, t1)" by simp
    from build_loop_result [OF this] ne obtain p b where
      "t1 = p @ date_events self (last (dates self), b, c)" by auto
    with t have "t = (CallExtract (preprocess_args self) (Inr ()) # p) @
        [CallConstruct (nwb_builder_args self (last (dates self))) (Inr b),
         CallBuild b (Inr c), CallWrite b c (Inr ())]"
      by (simp add: date_events_def)
    then show ?thesis by blast
  qed
  from a b show ?thesis by blast
qed

theorem build_nwb_returns_last_content_witness:
  "dates (example_builder [''20190718'', ''20190719'']) \<noteq> []
   \<and> fst (build_nwb example_collaborators (example_builder [''20190718'', ''20190719'']) [])
       = Inr ''content:/out/beans20190719.nwb''
   \<and> list_all returned
       (snd (snd (build_nwb example_collaborators (example_builder [''20190718'', ''20190719'']) [])))
   \<and> (\<exists>pre b. snd (snd (build_nwb example_collaborators
                 (example_builder [''20190718'', ''20190719'']) [])) =
         pre @ [CallConstruct (nwb_builder_args (example_builder [''20190718'', ''20190719''])
                                ''20190719'') (Inr b),
                CallBuild b (Inr ''content:/out/beans20190719.nwb''),
                CallWrite b ''content:/out/beans20190719.nwb'' (Inr ())])"
proof -
  let ?S = "example_builder [''20190718'', ''20190719'']"
  obtain r w' t where run: "build_nwb example_collaborators ?S [] = (r, w', t)"
    by (cases "build_nwb example_collaborators ?S []")
  have ne: "dates ?S \<noteq> []" by (simp add: example_builder_def)
  have l: "last (dates ?S) = ''20190719''" by (simp add: example_builder_def)
  have r: "r = Inr ''content:/out/beans20190719.nwb''" and ok: "list_all returned t"
    using run
    by (auto simp: build_nwb_unfold bindp_call returnp_def nwb_builder_args_def
          example_collaborators_def example_builder_def)
  from build_nwb_returns_last_content [OF ne run] r l ne ok run show ?thesis by simp
qed

text \<open>
  C7 (no date). With an empty \<open>dates\<close> the raw extractor is still called, once; if it
  raises, that is the outcome; if it returns, \<open>build_nwb\<close> raises UnboundLocalError.
  Either way no value is returned.
\<close>

theorem build_nwb_empty_dates_unbound:
  "dates self = [] \<Longrightarrow>
   build_nwb C self w =
     (case extract_trodes_rec_file C (preprocess_args self) w of
        (Inl e, w1) \<Rightarrow> (Inl e, w1, [CallExtract (preprocess_args self) (Inl e)])
      | (Inr u, w1) \<Rightarrow> (Inl UnboundLocalError, w1, [CallExtract (preprocess_args self) (Inr u)]))"
  by (simp add: build_nwb_unfold returnp_def split: prod.splits sum.splits)

theorem build_nwb_empty_dates_unbound_witness:
  "dates (example_builder []) = []
   \<and> build_nwb example_collaborators (example_builder []) [] =
       (Inl UnboundLocalError, [], [CallExtract (preprocess_args (example_builder [])) (Inr ())])"
proof -
  have e: "dates (example_builder []) = []" by (simp add: example_builder_def)
  from build_nwb_empty_dates_unbound [OF e, of example_collaborators "[]"] e show ?thesis
    by (simp add: example_collaborators_def)
qed

text \<open>
  C10 (cleanup). With a \<open>shutil.rmtree\<close> that leaves no path behind when it returns:
  when the directory \<open><data_path>/<animal_name>/preprocessing\<close> does not exist,
  \<open>cleanup\<close> returns and does nothing; when it exists, \<open>cleanup\<close> is the removal of that
  tree; and after a \<open>cleanup\<close> that returned, the directory does not exist and a second
  \<open>cleanup\<close> returns, calls nothing and leaves the file system as it is.
\<close>

theorem cleanup_idempotent:
  "rmtree_removes F \<Longrightarrow>
   (\<not> os_path_exists F (data_path self @ ''/'' @ animal_name self @ ''/preprocessing'') fs \<longrightarrow> cleanup F self fs = (Inr (), fs, []))
   \<and> (os_path_exists F (data_path self @ ''/'' @ animal_name self @ ''/preprocessing'') fs \<longrightarrow>
        cleanup F self fs =
          (case shutil_rmtree F (data_path self @ ''/'' @ animal_name self @ ''/preprocessing'') fs of
             (r, fs1) \<Rightarrow> (r, fs1, [CallRmtree (data_path self @ ''/'' @ animal_name self @ ''/preprocessing'') r])))
   \<and> (cleanup F self fs = (Inr (), fs', t) \<longrightarrow>
        \<not> os_path_exists F (data_path self @ ''/'' @ animal_name self @ ''/preprocessing'') fs'
        \<and> cleanup F self fs' = (Inr (), fs', []))"
proof -
  assume contract: "rmtree_removes F"
  have absent: "cleanup F self x = (Inr (), x, [])"
    if "\<not> os_path_exists F (data_path self @ ''/'' @ animal_name self @ ''/preprocessing'') x" for x
    using that by (simp add: cleanup_def Let_def returnp_def)
  have present: "cleanup F self fs =
          (case shutil_rmtree F (data_path self @ ''/'' @ animal_name self @ ''/preprocessing'') fs of
             (r, fs1) \<Rightarrow> (r, fs1, [CallRmtree (data_path self @ ''/'' @ animal_name self @ ''/preprocessing'') r]))"
    if "os_path_exists F (data_path self @ ''/'' @ animal_name self @ ''/preprocessing'') fs"
    using that by (simp add: cleanup_def Let_def call_def)
  have gone: "\<not> os_path_exists F (data_path self @ ''/'' @ animal_name self @ ''/preprocessing'') fs'"
    if ok: "cleanup F self fs = (Inr (), fs', t)"
  proof (cases "os_path_exists F (data_path self @ ''/'' @ animal_name self @ ''/preprocessing'') fs")
    case True
    with ok present have "shutil_rmtree F (data_path self @ ''/'' @ animal_name self @ ''/preprocessing'') fs = (Inr (), fs')"
      by (auto split: prod.splits)
    with contract show ?thesis unfolding rmtree_removes_def by blast
  next
    case False
    with ok absent [OF False] show ?thesis by simp
  qed
  from absent present gone show ?thesis by blast
qed

theorem cleanup_idempotent_witness:
  "rmtree_removes paths_ops
   \<and> cleanup paths_ops (example_builder []) example_paths =
       (Inr (), [''/data/beans/raw'', ''/data/beans/preprocessing.log''],
        [CallRmtree ''/data/beans/preprocessing'' (Inr ())])
   \<and> cleanup paths_ops (example_builder []) [''/data/beans/raw'', ''/data/beans/preprocessing.log''] =
       (Inr (), [''/data/beans/raw'', ''/data/beans/preprocessing.log''], [])"
proof -
  have run: "cleanup paths_ops (example_builder []) example_paths =
       (Inr (), [''/data/beans/raw'', ''/data/beans/preprocessing.log''],
        [CallRmtree ''/data/beans/preprocessing'' (Inr ())])"
    by (simp add: cleanup_def Let_def call_def paths_ops_def example_builder_def example_paths_def
          below_def)
  from cleanup_idempotent [OF paths_ops_rmtree_removes, of "example_builder []" example_paths
      "[''/data/beans/raw'', ''/data/beans/preprocessing.log'']"
      "[CallRmtree ''/data/beans/preprocessing'' (Inr ())]"] run paths_ops_rmtree_removes
  show ?thesis by simp
qed

end
